theory Spec2Isabelle
  imports Main
begin

section \<open>The product catalogue page (src/pages/admin/AdminProducts.tsx)\<close>

text \<open>
  The page is a React function component. Its six \<^verbatim>\<open>useState\<close> cells are the fields
  of one record, and every setter call is an update of that record. The four capabilities
  of the product service (\<^verbatim>\<open>fetchProducts\<close>, \<^verbatim>\<open>createProduct\<close>, \<^verbatim>\<open>updateProduct\<close>,
  \<^verbatim>\<open>deleteProduct\<close>) live outside the page; a handler receives the capability it awaits
  as a parameter, and the value of that parameter at the handler's argument is how the
  awaited promise settled. Writes to the console change no state and are left out.
\<close>

subsection \<open>Data\<close>

text \<open>A thrown value, \<^verbatim>\<open>Error\<close> in the source; the page reads only its message.\<close>

datatype Error = Error (message: string)

text \<open>
  A product. The page reads only the field \<^verbatim>\<open>id\<close> (called \<open>id'\<close> here, since \<open>id\<close> is
  the identity function of HOL); everything else is carried along untouched.
\<close>

record 'a Product =
  id' :: string
  attributes :: 'a

text \<open>How an awaited promise settles: with a value, or with a thrown error.\<close>

datatype 'r settled = Fulfilled 'r | Rejected Error

text \<open>The state cells of the component, in the order of their declaration.\<close>

record 'a AdminProducts =
  products :: "'a Product list"
  isLoading :: bool
  error :: "Error option"
  isCreateDialogOpen :: bool
  isEditDialogOpen :: bool
  selectedProductForEdit :: "'a Product option"

text \<open>The initial values given to \<^verbatim>\<open>useState\<close> (lines 16 to 22).\<close>

definition initialState :: "'a AdminProducts" where
  "initialState =
     \<lparr>products = [], isLoading = True, error = None,
      isCreateDialogOpen = False, isEditDialogOpen = False,
      selectedProductForEdit = None\<rparr>"

subsection \<open>The initial load (lines 24 to 38)\<close>

text \<open>
  \<^verbatim>\<open>getProducts\<close> runs in two parts: what it does before it awaits the list call, and
  what it does once that call has settled (the \<^verbatim>\<open>try\<close> or the \<^verbatim>\<open>catch\<close> branch, then
  \<^verbatim>\<open>finally\<close>). The effect that starts it has an empty dependency list and returns
  nothing: the page registers no cleanup and keeps no record of being unmounted. What
  becomes of a setter call made after the component was unmounted is decided by React, not
  by the page, and is not modelled.
\<close>

definition getProducts_begin :: "'a AdminProducts \<Rightarrow> 'a AdminProducts" where
  "getProducts_begin s = s\<lparr>isLoading := True, error := None\<rparr>"

definition getProducts_settle ::
  "'a Product list settled \<Rightarrow> 'a AdminProducts \<Rightarrow> 'a AdminProducts" where
  "getProducts_settle r s =
     (case r of
        Fulfilled fetchedProducts \<Rightarrow> s\<lparr>products := fetchedProducts\<rparr>
      | Rejected err \<Rightarrow> s\<lparr>error := Some err\<rparr>)
     \<lparr>isLoading := False\<rparr>"

text \<open>The whole load, given how \<^verbatim>\<open>fetchProducts()\<close> settles.\<close>

definition getProducts ::
  "(unit \<Rightarrow> 'a Product list settled) \<Rightarrow> 'a AdminProducts \<Rightarrow> 'a AdminProducts" where
  "getProducts fetchProducts s = getProducts_settle (fetchProducts ()) (getProducts_begin s)"

subsection \<open>The command handlers (lines 40 to 74)\<close>

text \<open>
  An \<^verbatim>\<open>async\<close> handler returns a promise of its own: the first component of the result
  says how that promise settles, the second is the state afterwards. The state argument is
  the state at the moment the awaited call settles, which is what the functional updaters
  \<^verbatim>\<open>setProducts((prevProducts) => ...)\<close> receive.
\<close>

definition handleCreateProduct ::
  "('a Product \<Rightarrow> 'a Product settled) \<Rightarrow> 'a Product \<Rightarrow> 'a AdminProducts
     \<Rightarrow> unit settled \<times> 'a AdminProducts" where
  "handleCreateProduct createProduct newProduct s =
     (case createProduct newProduct of
        Fulfilled createdProduct \<Rightarrow>
          (Fulfilled (), s\<lparr>products := products s @ [createdProduct]\<rparr>)
      | Rejected err \<Rightarrow> (Rejected err, s))"

definition handleEditProduct :: "string \<Rightarrow> 'a AdminProducts \<Rightarrow> 'a AdminProducts" where
  "handleEditProduct productId s =
     (case find (\<lambda>p. id' p = productId) (products s) of
        Some productToEdit \<Rightarrow>
          s\<lparr>selectedProductForEdit := Some productToEdit, isEditDialogOpen := True\<rparr>
      | None \<Rightarrow> s)"

definition handleProductUpdate ::
  "('a Product \<Rightarrow> 'a Product settled) \<Rightarrow> 'a Product \<Rightarrow> 'a AdminProducts
     \<Rightarrow> unit settled \<times> 'a AdminProducts" where
  "handleProductUpdate updateProduct updatedProduct s =
     (case updateProduct updatedProduct of
        Fulfilled result \<Rightarrow>
          (Fulfilled (),
           s\<lparr>products := map (\<lambda>p. if id' p = id' result then result else p) (products s)\<rparr>)
      | Rejected err \<Rightarrow> (Fulfilled (), s))"

definition handleDeleteProduct ::
  "(string \<Rightarrow> bool settled) \<Rightarrow> string \<Rightarrow> 'a AdminProducts
     \<Rightarrow> unit settled \<times> 'a AdminProducts" where
  "handleDeleteProduct deleteProduct productId s =
     (case deleteProduct productId of
        Fulfilled success \<Rightarrow>
          (Fulfilled (),
           if success
           then s\<lparr>products := filter (\<lambda>p. id' p \<noteq> productId) (products s)\<rparr>
           else s)
      | Rejected err \<Rightarrow> (Rejected err, s))"

subsection \<open>Sequences of settled operations\<close>

text \<open>
  One operation that has settled successfully, with what the service answered: the list
  of the initial load, the product sent to create and the record created, the product sent
  to update and the record returned, the id sent to delete and the success indicator.
\<close>

datatype 'a operation =
  Loaded "'a Product list"
| Created "'a Product" "'a Product"
| Updated "'a Product" "'a Product"
| Deleted string bool

fun perform :: "'a operation \<Rightarrow> 'a AdminProducts \<Rightarrow> 'a AdminProducts" where
  "perform (Loaded fetchedProducts) s = getProducts (\<lambda>_. Fulfilled fetchedProducts) s"
| "perform (Created newProduct createdProduct) s =
     snd (handleCreateProduct (\<lambda>_. Fulfilled createdProduct) newProduct s)"
| "perform (Updated updatedProduct result) s =
     snd (handleProductUpdate (\<lambda>_. Fulfilled result) updatedProduct s)"
| "perform (Deleted productId success) s =
     snd (handleDeleteProduct (\<lambda>_. Fulfilled success) productId s)"

fun run :: "'a operation list \<Rightarrow> 'a AdminProducts \<Rightarrow> 'a AdminProducts" where
  "run [] s = s"
| "run (op # ops) s = run ops (perform op s)"

text \<open>The collection holds at most one entry per id.\<close>

definition uniqueIds :: "'a AdminProducts \<Rightarrow> bool" where
  "uniqueIds s = distinct (map id' (products s))"

text \<open>
  What the page relies on the service for: a list answer names no id twice, and a created
  record carries an id that the collection does not hold yet.
\<close>

fun serviceKeepsIds :: "'a operation \<Rightarrow> 'a AdminProducts \<Rightarrow> bool" where
  "serviceKeepsIds (Loaded fetchedProducts) s = distinct (map id' fetchedProducts)"
| "serviceKeepsIds (Created newProduct createdProduct) s =
     (id' createdProduct \<notin> set (map id' (products s)))"
| "serviceKeepsIds (Updated updatedProduct result) s = True"
| "serviceKeepsIds (Deleted productId success) s = True"

fun serviceKeepsIdsAll :: "'a operation list \<Rightarrow> 'a AdminProducts \<Rightarrow> bool" where
  "serviceKeepsIdsAll [] s = True"
| "serviceKeepsIdsAll (op # ops) s =
     (serviceKeepsIds op s \<and> serviceKeepsIdsAll ops (perform op s))"

subsection \<open>Sample data\<close>

definition productA :: "string Product" where
  "productA = \<lparr>id' = ''a'', attributes = ''Life cover''\<rparr>"

definition productB :: "string Product" where
  "productB = \<lparr>id' = ''b'', attributes = ''Car cover''\<rparr>"

definition productB' :: "string Product" where
  "productB' = \<lparr>id' = ''b'', attributes = ''Car cover, revised''\<rparr>"

definition productC :: "string Product" where
  "productC = \<lparr>id' = ''c'', attributes = ''Home cover''\<rparr>"

definition productC' :: "string Product" where
  "productC' = \<lparr>id' = ''c'', attributes = ''Home cover, revised''\<rparr>"

definition catalogueABC :: "string AdminProducts" where
  "catalogueABC = initialState\<lparr>products := [productA, productB, productC], isLoading := False\<rparr>"

definition networkError :: Error where
  "networkError = Error ''Network Error''"

section \<open>Facts about lists used below\<close>

lemma map_replace_distinct:
  assumes "distinct (map f xs)" and "i < length xs" and "f (xs ! i) = f y"
  shows "map (\<lambda>x. if f x = f y then y else x) xs = xs[i := y]"
proof (rule nth_equalityI)
  show "length (map (\<lambda>x. if f x = f y then y else x) xs) = length (xs[i := y])"
    by simp
next
  fix j
  assume "j < length (map (\<lambda>x. if f x = f y then y else x) xs)"
  then have j: "j < length xs" by simp
  show "map (\<lambda>x. if f x = f y then y else x) xs ! j = xs[i := y] ! j"
  proof (cases "j = i")
    case True
    with assms show ?thesis by simp
  next
    case False
    from assms(1) j assms(2) False have "map f xs ! j \<noteq> map f xs ! i"
      by (simp add: nth_eq_iff_index_eq del: nth_map)
    with j assms(2,3) have "f (xs ! j) \<noteq> f y" by simp
    with j False show ?thesis by simp
  qed
qed

lemma filter_remove_distinct:
  "distinct (map f xs) \<Longrightarrow> i < length xs \<Longrightarrow> f (xs ! i) = k
     \<Longrightarrow> filter (\<lambda>x. f x \<noteq> k) xs = take i xs @ drop (Suc i) xs"
proof (induction xs arbitrary: i)
  case Nil
  then show ?case by simp
next
  case (Cons x xs)
  from Cons.prems(1) have head: "f x \<notin> f ` set xs" and tail: "distinct (map f xs)"
    by simp_all
  show ?case
  proof (cases i)
    case 0
    with Cons.prems(3) have "k = f x" by simp
    with head have "\<forall>z\<in>set xs. f z \<noteq> k" by (auto simp: image_iff)
    then have "filter (\<lambda>x. f x \<noteq> k) xs = xs" by simp
    with 0 \<open>k = f x\<close> show ?thesis by simp
  next
    case (Suc j)
    with Cons.prems(2,3) have j: "j < length xs" and k: "f (xs ! j) = k" by simp_all
    from j have "xs ! j \<in> set xs" by simp
    with head k have "f x \<noteq> k" by (auto simp: image_iff)
    with Suc Cons.IH [OF tail j k] show ?thesis by simp
  qed
qed

lemma map_replace_ids: "map f (map (\<lambda>x. if f x = f y then y else x) xs) = map f xs"
  by (induction xs) simp_all

lemma perform_uniqueIds:
  "uniqueIds s \<Longrightarrow> serviceKeepsIds op s \<Longrightarrow> uniqueIds (perform op s)"
proof (cases op)
  case (Loaded fetchedProducts)
  then show "serviceKeepsIds op s \<Longrightarrow> uniqueIds (perform op s)"
    by (simp add: uniqueIds_def getProducts_def getProducts_begin_def getProducts_settle_def)
next
  case (Created newProduct createdProduct)
  then show "uniqueIds s \<Longrightarrow> serviceKeepsIds op s \<Longrightarrow> uniqueIds (perform op s)"
    by (simp add: uniqueIds_def handleCreateProduct_def)
next
  case (Updated updatedProduct result)
  then show "uniqueIds s \<Longrightarrow> uniqueIds (perform op s)"
    by (simp add: uniqueIds_def handleProductUpdate_def map_replace_ids del: map_map)
next
  case (Deleted productId success)
  then show "uniqueIds s \<Longrightarrow> uniqueIds (perform op s)"
    by (simp add: uniqueIds_def handleDeleteProduct_def distinct_map_filter)
qed



lemma run_uniqueIds:
  "uniqueIds s \<Longrightarrow> serviceKeepsIdsAll ops s \<Longrightarrow> uniqueIds (run ops s)"
proof (induction ops arbitrary: s)
  case Nil
  then show ?case by simp
next
  case (Cons op ops)
  from Cons.prems have "uniqueIds (perform op s)" and "serviceKeepsIdsAll ops (perform op s)"
    by (simp_all add: perform_uniqueIds)
  then have "uniqueIds (run ops (perform op s))" by (rule Cons.IH)
  then show ?case by simp
qed

lemma uniqueIds_initialState: "uniqueIds initialState"
  by (simp add: uniqueIds_def initialState_def)

section \<open>The initial load\<close>

text \<open>
  C4. When the list call of the initial load succeeds with a sequence of products, the
  collection afterwards is that sequence in the same order, the loading flag is false and
  no error is set.
\<close>

theorem getProducts_success:
  assumes "fetchProducts () = Fulfilled fetchedProducts"
  shows "products (getProducts fetchProducts s) = fetchedProducts
    \<and> isLoading (getProducts fetchProducts s) = False
    \<and> error (getProducts fetchProducts s) = None"
  using assms by (simp add: getProducts_def getProducts_begin_def getProducts_settle_def)

theorem getProducts_success_witness:
  "products (getProducts (\<lambda>_. Fulfilled [productA, productB, productC]) initialState)
       = [productA, productB, productC]
    \<and> isLoading (getProducts (\<lambda>_. Fulfilled [productA, productB, productC]) initialState)
       = False
    \<and> error (getProducts (\<lambda>_. Fulfilled [productA, productB, productC]) initialState) = None"
  using getProducts_success
    [of "\<lambda>_. Fulfilled [productA, productB, productC]" "[productA, productB, productC]"
      initialState]
  by simp

text \<open>
  C5. When the list call of the initial load fails with the error E, the collection
  afterwards is empty, the error is E and the loading flag is false. The initial load
  starts from the initial values of the state cells; the failing branch never writes the
  collection, which therefore is still the empty list it started as.
\<close>

theorem getProducts_failure:
  assumes "fetchProducts () = Rejected E"
  shows "products (getProducts fetchProducts initialState) = []
    \<and> error (getProducts fetchProducts initialState) = Some E
    \<and> isLoading (getProducts fetchProducts initialState) = False"
  using assms
  by (simp add: getProducts_def getProducts_begin_def getProducts_settle_def initialState_def)

theorem getProducts_failure_witness:
  "products (getProducts (\<lambda>_. Rejected networkError) (initialState :: string AdminProducts)) = []
    \<and> error (getProducts (\<lambda>_. Rejected networkError) (initialState :: string AdminProducts))
       = Some networkError
    \<and> isLoading (getProducts (\<lambda>_. Rejected networkError) (initialState :: string AdminProducts))
       = False"
  using getProducts_failure
    [of "\<lambda>_. Rejected networkError :: string Product list settled" networkError]
  by simp

section \<open>The collection invariant\<close>

text \<open>
  C2, as the page has it. The page never compares ids when it stores a list or appends a
  created record, so uniqueness of ids rests on the service: when every list answer names
  no id twice and every created record carries an id the collection does not hold, every
  state reached from the initial one by successful load, create, update and delete
  operations holds at most one entry per id. Update and delete ask nothing of the service.
\<close>

theorem run_uniqueIds_initialState:
  assumes "serviceKeepsIdsAll ops (initialState :: 'a AdminProducts)"
  shows "uniqueIds (run ops (initialState :: 'a AdminProducts))"
  using uniqueIds_initialState assms by (rule run_uniqueIds)

theorem run_uniqueIds_initialState_witness:
  "serviceKeepsIdsAll
      [Loaded [productA, productB], Created productC productC, Updated productB' productB',
       Deleted ''a'' True] initialState
    \<and> uniqueIds (run
      [Loaded [productA, productB], Created productC productC, Updated productB' productB',
       Deleted ''a'' True] initialState)"
proof -
  have ok: "serviceKeepsIdsAll
      [Loaded [productA, productB], Created productC productC, Updated productB' productB',
       Deleted ''a'' True] initialState"
    by (simp add: getProducts_def getProducts_begin_def getProducts_settle_def
        handleCreateProduct_def handleProductUpdate_def handleDeleteProduct_def
        initialState_def productA_def productB_def productB'_def productC_def)
  from run_uniqueIds_initialState [OF ok] ok show ?thesis by simp
qed

text \<open>
  C2 as stated fails: two successful creates for which the service returns the same
  record leave two entries with one id.
\<close>

theorem uniqueIds_counterexample:
  "\<not> uniqueIds (run [Created productB productB, Created productB productB] initialState)"
  by (simp add: uniqueIds_def handleCreateProduct_def initialState_def)

section \<open>Failures of the remote calls\<close>

text \<open>
  C3, as the page has it. A failure of the update call is caught inside
  \<^verbatim>\<open>handleProductUpdate\<close>, whose promise fulfils whatever the service answers, and the state
  is left as it was. A failure of the create call is not caught: the promise of
  \<^verbatim>\<open>handleCreateProduct\<close> is rejected with that error, which reaches the caller.
\<close>

theorem command_failure_propagation:
  "fst (handleProductUpdate updateProduct updatedProduct s) = Fulfilled ()
    \<and> (updateProduct updatedProduct = Rejected err
          \<longrightarrow> handleProductUpdate updateProduct updatedProduct s = (Fulfilled (), s))
    \<and> (createProduct newProduct = Rejected err
          \<longrightarrow> fst (handleCreateProduct createProduct newProduct s) = Rejected err)"
  by (simp add: handleProductUpdate_def handleCreateProduct_def split: settled.splits)

theorem command_failure_propagation_witness:
  "handleProductUpdate (\<lambda>_. Rejected networkError) productB' catalogueABC
       = (Fulfilled (), catalogueABC)
    \<and> fst (handleCreateProduct (\<lambda>_. Rejected networkError) productA catalogueABC)
       = Rejected networkError"
  using command_failure_propagation
    [of "\<lambda>_. Rejected networkError" productB' catalogueABC networkError
      "\<lambda>_. Rejected networkError" productA]
  by simp

text \<open>
  C3 as stated fails: when the create call fails, the handler's own promise is rejected
  with the error of the call.
\<close>

theorem create_failure_counterexample:
  "fst (handleCreateProduct (\<lambda>_. Rejected networkError) productA catalogueABC)
     = Rejected networkError"
  by (simp add: handleCreateProduct_def)

section \<open>Create, update, delete\<close>

text \<open>
  C6. Whatever the collection holds, a create call that succeeds appends the record the
  service returned at the end of the collection and leaves the entries before it, and every
  other state cell, as they were; a create call that fails leaves the state as it was and
  the handler's promise is rejected with the failure.
\<close>

theorem handleCreateProduct_result:
  "(createProduct newProduct = Fulfilled createdProduct
      \<longrightarrow> handleCreateProduct createProduct newProduct s
            = (Fulfilled (), s\<lparr>products := products s @ [createdProduct]\<rparr>))
    \<and> (createProduct newProduct = Rejected err
      \<longrightarrow> handleCreateProduct createProduct newProduct s = (Rejected err, s))"
  by (simp add: handleCreateProduct_def)

theorem handleCreateProduct_result_witness:
  "products (snd (handleCreateProduct (\<lambda>_. Fulfilled productB) productB
        (initialState\<lparr>products := [productA]\<rparr>))) = [productA, productB]
    \<and> handleCreateProduct (\<lambda>_. Rejected networkError) productB
        (initialState\<lparr>products := [productA]\<rparr>)
       = (Rejected networkError, initialState\<lparr>products := [productA]\<rparr>)"
  using handleCreateProduct_result
      [of "\<lambda>_. Fulfilled productB" productB productB "initialState\<lparr>products := [productA]\<rparr>"]
    handleCreateProduct_result
      [of "\<lambda>_. Rejected networkError" productB _ "initialState\<lparr>products := [productA]\<rparr>"
        networkError]
  by simp

text \<open>
  C7, as the page has it. The handler compares the entries with the id of the record the
  update call returns, not with the id of the product it was given. Take a collection with
  an entry, at position i, whose id is the id of the returned record. A successful update
  keeps the length of the collection, puts the returned record at position i and leaves
  every entry with another id as it was; when the ids of the collection are pairwise
  different, the new collection is the old one with position i overwritten. A failed update
  leaves the whole state as it was.
\<close>

theorem handleProductUpdate_in_place:
  assumes "updateProduct updatedProduct = Fulfilled result"
    and "i < length (products s)"
    and "id' (products s ! i) = id' result"
  shows "length (products (snd (handleProductUpdate updateProduct updatedProduct s)))
        = length (products s)
    \<and> products (snd (handleProductUpdate updateProduct updatedProduct s)) ! i = result
    \<and> (\<forall>j < length (products s). id' (products s ! j) \<noteq> id' result \<longrightarrow>
          products (snd (handleProductUpdate updateProduct updatedProduct s)) ! j
            = products s ! j)
    \<and> (distinct (map id' (products s)) \<longrightarrow>
          products (snd (handleProductUpdate updateProduct updatedProduct s))
            = (products s)[i := result])
    \<and> (failing updatedProduct = Rejected err \<longrightarrow>
          snd (handleProductUpdate failing updatedProduct s) = s)"
proof -
  let ?ps' = "products (snd (handleProductUpdate updateProduct updatedProduct s))"
  from assms(1) have ps': "?ps' = map (\<lambda>p. if id' p = id' result then result else p) (products s)"
    by (simp add: handleProductUpdate_def)
  have len: "length ?ps' = length (products s)"
    by (simp add: ps')
  from assms(2,3) have at_i: "?ps' ! i = result"
    by (simp add: ps')
  have others: "\<forall>j < length (products s). id' (products s ! j) \<noteq> id' result \<longrightarrow>
      ?ps' ! j = products s ! j"
    by (simp add: ps')
  have inv: "distinct (map id' (products s)) \<longrightarrow> ?ps' = (products s)[i := result]"
    using assms(2,3) by (simp add: ps' map_replace_distinct)
  have failed: "failing updatedProduct = Rejected err \<longrightarrow>
      snd (handleProductUpdate failing updatedProduct s) = s"
    by (simp add: handleProductUpdate_def)
  from len at_i others inv failed show ?thesis by blast
qed

theorem handleProductUpdate_in_place_witness:
  "products (snd (handleProductUpdate (\<lambda>_. Fulfilled productB') productB catalogueABC))
       = [productA, productB', productC]
    \<and> snd (handleProductUpdate (\<lambda>_. Rejected networkError) productB catalogueABC)
       = catalogueABC"
proof -
  have call: "(\<lambda>_. Fulfilled productB') productB = Fulfilled productB'"
    by simp
  have pos: "1 < length (products catalogueABC)"
    by (simp add: catalogueABC_def)
  have same: "id' (products catalogueABC ! 1) = id' productB'"
    by (simp add: catalogueABC_def productB_def productB'_def)
  have ids: "distinct (map id' (products catalogueABC))"
    by (simp add: catalogueABC_def productA_def productB_def productC_def)
  have fails: "(\<lambda>_. Rejected networkError) productB = Rejected networkError"
    by simp
  from handleProductUpdate_in_place
      [where updateProduct = "\<lambda>_. Fulfilled productB'" and updatedProduct = productB
        and result = productB' and i = 1 and s = catalogueABC
        and failing = "\<lambda>_. Rejected networkError" and err = networkError]
    call pos same ids fails
  have "products (snd (handleProductUpdate (\<lambda>_. Fulfilled productB') productB catalogueABC))
        = (products catalogueABC)[1 := productB']"
    and "snd (handleProductUpdate (\<lambda>_. Rejected networkError) productB catalogueABC)
        = catalogueABC"
    by blast+
  then show ?thesis by (simp add: catalogueABC_def)
qed

text \<open>
  C7 as stated fails in two ways. When the service answers an update of B with a record
  that carries the id of C, the entry with the id of the updated product B stays as it was
  and the entry C is overwritten. When two entries share the id of the returned record,
  both are overwritten, so an entry other than the one updated changes.
\<close>

theorem handleProductUpdate_counterexample:
  "id' productB \<noteq> id' productC'
    \<and> products (snd (handleProductUpdate (\<lambda>_. Fulfilled productC') productB catalogueABC))
       = [productA, productB, productC']
    \<and> productB' \<noteq> productB
    \<and> products (snd (handleProductUpdate (\<lambda>_. Fulfilled productB) productB
         (initialState\<lparr>products := [productA, productB, productB']\<rparr>)))
       = [productA, productB, productB]"
  by (simp add: handleProductUpdate_def catalogueABC_def initialState_def
      productA_def productB_def productB'_def productC_def productC'_def)

text \<open>
  C10. When the record returned by a successful update carries an id that no entry of the
  collection has, the state is left as it was; and no update, however the call settles,
  changes the number of entries.
\<close>

theorem handleProductUpdate_unknown_id:
  "length (products (snd (handleProductUpdate updateProduct updatedProduct s)))
       = length (products s)
    \<and> (updateProduct updatedProduct = Fulfilled result
        \<and> id' result \<notin> set (map id' (products s))
      \<longrightarrow> handleProductUpdate updateProduct updatedProduct s = (Fulfilled (), s))"
proof -
  have "map (\<lambda>p. if id' p = id' result then result else p) (products s) = products s"
    if "id' result \<notin> set (map id' (products s))"
    using that by (intro map_idI) (auto simp: image_iff)
  then show ?thesis
    by (simp add: handleProductUpdate_def split: settled.splits)
qed

theorem handleProductUpdate_unknown_id_witness:
  "id' productB' \<notin> set (map id' [productA, productC])
    \<and> handleProductUpdate (\<lambda>_. Fulfilled productB') productB
        (initialState\<lparr>products := [productA, productC]\<rparr>)
       = (Fulfilled (), initialState\<lparr>products := [productA, productC]\<rparr>)"
proof -
  have absent: "id' productB' \<notin> set (map id' [productA, productC])"
    by (simp add: productA_def productB'_def productC_def)
  with handleProductUpdate_unknown_id
      [of "\<lambda>_. Fulfilled productB'" productB "initialState\<lparr>products := [productA, productC]\<rparr>"
        productB']
  show ?thesis by simp
qed

text \<open>
  C8. Whatever the collection and the id, a delete call that resolves to false, or that
  fails, leaves the state as it was. A delete call that resolves to true keeps, in their
  order, exactly the entries whose id is not the given one; when the ids of the collection
  are pairwise different and the entry at position i has the given id, that is the
  collection without position i.
\<close>

theorem handleDeleteProduct_result:
  "(deleteProduct productId = Fulfilled False
      \<longrightarrow> handleDeleteProduct deleteProduct productId s = (Fulfilled (), s))
    \<and> (deleteProduct productId = Rejected err
      \<longrightarrow> snd (handleDeleteProduct deleteProduct productId s) = s)
    \<and> (deleteProduct productId = Fulfilled True
      \<longrightarrow> handleDeleteProduct deleteProduct productId s
            = (Fulfilled (),
               s\<lparr>products := filter (\<lambda>p. id' p \<noteq> productId) (products s)\<rparr>)
          \<and> (distinct (map id' (products s)) \<and> i < length (products s)
                \<and> id' (products s ! i) = productId
              \<longrightarrow> products (snd (handleDeleteProduct deleteProduct productId s))
                    = take i (products s) @ drop (Suc i) (products s)))"
  by (simp add: handleDeleteProduct_def filter_remove_distinct)

theorem handleDeleteProduct_result_witness:
  "snd (handleDeleteProduct (\<lambda>_. Fulfilled False) ''a'' catalogueABC) = catalogueABC
    \<and> snd (handleDeleteProduct (\<lambda>_. Rejected networkError) ''a'' catalogueABC) = catalogueABC
    \<and> products (snd (handleDeleteProduct (\<lambda>_. Fulfilled True) ''a'' catalogueABC))
       = [productB, productC]"
proof -
  have ids: "distinct (map id' (products catalogueABC))"
    by (simp add: catalogueABC_def productA_def productB_def productC_def)
  have pos: "0 < length (products catalogueABC)"
    and at: "id' (products catalogueABC ! 0) = ''a''"
    by (simp_all add: catalogueABC_def productA_def)
  from handleDeleteProduct_result
      [where deleteProduct = "\<lambda>_. Fulfilled False" and productId = "''a''" and s = catalogueABC]
  have no: "snd (handleDeleteProduct (\<lambda>_. Fulfilled False) ''a'' catalogueABC) = catalogueABC"
    by simp
  from handleDeleteProduct_result
      [where deleteProduct = "\<lambda>_. Rejected networkError" and productId = "''a''"
        and err = networkError and s = catalogueABC]
  have failed:
    "snd (handleDeleteProduct (\<lambda>_. Rejected networkError) ''a'' catalogueABC) = catalogueABC"
    by simp
  from handleDeleteProduct_result
      [where deleteProduct = "\<lambda>_. Fulfilled True" and productId = "''a''" and s = catalogueABC
        and i = 0]
    ids pos at
  have "products (snd (handleDeleteProduct (\<lambda>_. Fulfilled True) ''a'' catalogueABC))
      = take 0 (products catalogueABC) @ drop (Suc 0) (products catalogueABC)"
    by blast
  then have yes: "products (snd (handleDeleteProduct (\<lambda>_. Fulfilled True) ''a'' catalogueABC))
      = [productB, productC]"
    by (simp add: catalogueABC_def)
  from no failed yes show ?thesis by simp
qed

section \<open>Selecting a product for editing\<close>

text \<open>
  C9. A request to edit an id that no entry of the collection has leaves the state as it
  was: the product selected for editing is unchanged and the edit dialog is not opened. A
  request to edit an id that is in the collection selects the entry with that id (the first
  one, as \<^verbatim>\<open>Array.prototype.find\<close> returns it) and opens the edit dialog.
\<close>

theorem handleEditProduct_lookup:
  "(productId \<notin> set (map id' (products s)) \<longrightarrow> handleEditProduct productId s = s)
    \<and> (productId \<in> set (map id' (products s)) \<longrightarrow>
        (\<exists>p. find (\<lambda>p. id' p = productId) (products s) = Some p
          \<and> p \<in> set (products s) \<and> id' p = productId
          \<and> handleEditProduct productId s
              = s\<lparr>selectedProductForEdit := Some p, isEditDialogOpen := True\<rparr>))"
proof (cases "find (\<lambda>p. id' p = productId) (products s)")
  case None
  then have "productId \<notin> set (map id' (products s))"
    by (auto simp: find_None_iff)
  with None show ?thesis
    by (simp add: handleEditProduct_def)
next
  case (Some p)
  then have "p \<in> set (products s)" and "id' p = productId"
    by (auto simp: find_Some_iff)
  with Some show ?thesis
    by (auto simp: handleEditProduct_def)
qed

theorem handleEditProduct_lookup_witness:
  "handleEditProduct ''z'' catalogueABC = catalogueABC
    \<and> handleEditProduct ''b'' catalogueABC
       = catalogueABC\<lparr>selectedProductForEdit := Some productB, isEditDialogOpen := True\<rparr>"
proof -
  have absent: "''z'' \<notin> set (map id' (products catalogueABC))"
    by (simp add: catalogueABC_def productA_def productB_def productC_def)
  have present: "''b'' \<in> set (map id' (products catalogueABC))"
    by (simp add: catalogueABC_def productB_def)
  have first: "find (\<lambda>p. id' p = ''b'') (products catalogueABC) = Some productB"
    by (simp add: catalogueABC_def productA_def productB_def)
  from handleEditProduct_lookup [of "''z''" catalogueABC] absent
  have no: "handleEditProduct ''z'' catalogueABC = catalogueABC"
    by blast
  from handleEditProduct_lookup [of "''b''" catalogueABC] present first
  have yes: "handleEditProduct ''b'' catalogueABC
      = catalogueABC\<lparr>selectedProductForEdit := Some productB, isEditDialogOpen := True\<rparr>"
    by auto
  from no yes show ?thesis by simp
qed

end
